theory Spec2Isabelle
  imports Main "HOL-Library.Word"
begin

unbundle bit_operations_syntax

section \<open>ST7789 display driver (examples/rp2040-st7789)\<close>

text \<open>
  The driver talks to the display through the Pico SDK: \<open>gpio_put\<close>,
  \<open>spi_write_blocking\<close>, \<open>sleep_ms\<close> and the set-up calls of \<open>init\<close>. Those calls
  are the only effects of the driver, so the model records each of them, in order, in a
  trace. The driver object and the trace together form the state that every method
  takes and returns.

  Integers follow C on the RP2040 (32-bit \<open>int\<close>): a \<open>uint16_t\<close> operand of \<open>+\<close>,
  \<open>-\<close>, \<open>>>\<close>, \<open>&\<close> or of a comparison is promoted to \<open>int\<close> first (\<open>uint\<close> below),
  and a value passed to a \<open>uint8_t\<close> or \<open>uint16_t\<close> parameter, or stored in such a
  variable, is reduced to that width (\<open>word_of_int\<close>).
\<close>

subsection \<open>Data model\<close>

type_synonym u8 = "8 word"
type_synonym u16 = "16 word"
type_synonym u32 = "32 word"

text \<open>\<open>spi_inst_t*\<close>: the address of the SPI peripheral (\<open>spi0\<close> or \<open>spi1\<close>).\<close>

type_synonym spi_inst_ptr = nat

datatype gpio_function = GPIO_FUNC_SPI

datatype gpio_dir = GPIO_IN | GPIO_OUT

text \<open>One SDK call, with its arguments. A transfer carries the bytes it sends.\<close>

datatype event =
    SpiInit spi_inst_ptr u32
  | GpioSetFunction u8 gpio_function
  | GpioInit u8
  | GpioSetDir u8 gpio_dir
  | GpioPut u8 bool
  | SpiWriteBlocking spi_inst_ptr "u8 list"
  | SleepMs u32

text \<open>The private members of \<open>class ST7789\<close> (st7789.h, lines 189-194).\<close>

record ST7789 =
  m_spi :: spi_inst_ptr
  m_cs :: u8
  m_dc :: u8
  m_rst :: u8
  m_sck :: u8
  m_mosi :: u8

record machine =
  self :: ST7789
  trace :: "event list"

text \<open>st7789.h, lines 46-61.\<close>

definition ST7789_SWRESET :: u8 where "ST7789_SWRESET = 0x01"
definition ST7789_SLPOUT :: u8 where "ST7789_SLPOUT = 0x11"
definition ST7789_COLMOD :: u8 where "ST7789_COLMOD = 0x3A"
definition ST7789_MADCTL :: u8 where "ST7789_MADCTL = 0x36"
definition ST7789_CASET :: u8 where "ST7789_CASET = 0x2A"
definition ST7789_RASET :: u8 where "ST7789_RASET = 0x2B"
definition ST7789_RAMWR :: u8 where "ST7789_RAMWR = 0x2C"
definition ST7789_DISPON :: u8 where "ST7789_DISPON = 0x29"
definition ST7789_INVON :: u8 where "ST7789_INVON = 0x21"
definition ST7789_INVOFF :: u8 where "ST7789_INVOFF = 0x20"

definition SCREEN_WIDTH :: int where "SCREEN_WIDTH = 240"
definition SCREEN_HEIGHT :: int where "SCREEN_HEIGHT = 320"

subsection \<open>SDK calls\<close>

definition sdk_call :: "event \<Rightarrow> machine \<Rightarrow> machine" where
  "sdk_call e m = m\<lparr>trace := trace m @ [e]\<rparr>"

definition spi_init :: "spi_inst_ptr \<Rightarrow> u32 \<Rightarrow> machine \<Rightarrow> machine" where
  "spi_init spi baudrate = sdk_call (SpiInit spi baudrate)"

definition gpio_set_function :: "u8 \<Rightarrow> gpio_function \<Rightarrow> machine \<Rightarrow> machine" where
  "gpio_set_function pin fn = sdk_call (GpioSetFunction pin fn)"

definition gpio_init :: "u8 \<Rightarrow> machine \<Rightarrow> machine" where
  "gpio_init pin = sdk_call (GpioInit pin)"

definition gpio_set_dir :: "u8 \<Rightarrow> gpio_dir \<Rightarrow> machine \<Rightarrow> machine" where
  "gpio_set_dir pin dir = sdk_call (GpioSetDir pin dir)"

definition gpio_put :: "u8 \<Rightarrow> bool \<Rightarrow> machine \<Rightarrow> machine" where
  "gpio_put pin v = sdk_call (GpioPut pin v)"

text \<open>\<open>spi_write_blocking(spi, src, len)\<close> sends the first \<open>len\<close> bytes at \<open>src\<close>.\<close>

definition spi_write_blocking :: "spi_inst_ptr \<Rightarrow> u8 list \<Rightarrow> nat \<Rightarrow> machine \<Rightarrow> machine" where
  "spi_write_blocking spi src len = sdk_call (SpiWriteBlocking spi (take len src))"

definition sleep_ms :: "u32 \<Rightarrow> machine \<Rightarrow> machine" where
  "sleep_ms ms = sdk_call (SleepMs ms)"

subsection \<open>Constructor and transport (st7789.cpp, lines 20-71)\<close>

definition ST7789_ctor :: "spi_inst_ptr \<Rightarrow> u8 \<Rightarrow> u8 \<Rightarrow> u8 \<Rightarrow> u8 \<Rightarrow> u8 \<Rightarrow> ST7789" where
  "ST7789_ctor spi cs dc rst sck mosi =
     \<lparr>m_spi = spi, m_cs = cs, m_dc = dc, m_rst = rst, m_sck = sck, m_mosi = mosi\<rparr>"

definition writeCommand :: "u8 \<Rightarrow> machine \<Rightarrow> machine" where
  "writeCommand cmd m =
     (let m = gpio_put (m_dc (self m)) False m;
          m = gpio_put (m_cs (self m)) False m;
          m = spi_write_blocking (m_spi (self m)) [cmd] 1 m;
          m = gpio_put (m_cs (self m)) True m
      in m)"

definition writeData :: "u8 \<Rightarrow> machine \<Rightarrow> machine" where
  "writeData data m =
     (let m = gpio_put (m_dc (self m)) True m;
          m = gpio_put (m_cs (self m)) False m;
          m = spi_write_blocking (m_spi (self m)) [data] 1 m;
          m = gpio_put (m_cs (self m)) True m
      in m)"

definition writeDataBuf :: "u8 list \<Rightarrow> nat \<Rightarrow> machine \<Rightarrow> machine" where
  "writeDataBuf buf len m =
     (let m = gpio_put (m_dc (self m)) True m;
          m = gpio_put (m_cs (self m)) False m;
          m = spi_write_blocking (m_spi (self m)) buf len m;
          m = gpio_put (m_cs (self m)) True m
      in m)"

subsection \<open>Window addressing (st7789.cpp, lines 87-104)\<close>

definition setWindow :: "u16 \<Rightarrow> u16 \<Rightarrow> u16 \<Rightarrow> u16 \<Rightarrow> machine \<Rightarrow> machine" where
  "setWindow x0 y0 x1 y1 m =
     (let m = writeCommand ST7789_CASET m;
          m = writeData (word_of_int (drop_bit 8 (uint x0))) m;
          m = writeData (word_of_int (uint x0 AND 0xFF)) m;
          m = writeData (word_of_int (drop_bit 8 (uint x1))) m;
          m = writeData (word_of_int (uint x1 AND 0xFF)) m;
          m = writeCommand ST7789_RASET m;
          m = writeData (word_of_int (drop_bit 8 (uint y0))) m;
          m = writeData (word_of_int (uint y0 AND 0xFF)) m;
          m = writeData (word_of_int (drop_bit 8 (uint y1))) m;
          m = writeData (word_of_int (uint y1 AND 0xFF)) m;
          m = writeCommand ST7789_RAMWR m
      in m)"

subsection \<open>Initialisation (st7789.cpp, lines 135-187)\<close>

definition init :: "u32 \<Rightarrow> machine \<Rightarrow> machine" where
  "init baudrate m =
     (let m = spi_init (m_spi (self m)) baudrate m;
          m = gpio_set_function (m_sck (self m)) GPIO_FUNC_SPI m;
          m = gpio_set_function (m_mosi (self m)) GPIO_FUNC_SPI m;
          m = gpio_init (m_cs (self m)) m;
          m = gpio_init (m_dc (self m)) m;
          m = gpio_init (m_rst (self m)) m;
          m = gpio_set_dir (m_cs (self m)) GPIO_OUT m;
          m = gpio_set_dir (m_dc (self m)) GPIO_OUT m;
          m = gpio_set_dir (m_rst (self m)) GPIO_OUT m;
          m = gpio_put (m_rst (self m)) True m;
          m = sleep_ms 100 m;
          m = gpio_put (m_rst (self m)) False m;
          m = sleep_ms 100 m;
          m = gpio_put (m_rst (self m)) True m;
          m = sleep_ms 100 m;
          m = writeCommand ST7789_SWRESET m;
          m = sleep_ms 150 m;
          m = writeCommand ST7789_SLPOUT m;
          m = sleep_ms 120 m;
          m = writeCommand ST7789_COLMOD m;
          m = writeData 0x55 m;
          m = writeCommand ST7789_MADCTL m;
          m = writeData 0x00 m;
          m = writeCommand ST7789_INVOFF m;
          m = writeCommand ST7789_DISPON m;
          m = sleep_ms 100 m
      in m)"

subsection \<open>Drawing (st7789.cpp, lines 196-275)\<close>

text \<open>
  The pixel loop of \<open>fillRect\<close>:
  \<open>for (uint32_t i = 0; i < (uint32_t)w * h; i++) spi_write_blocking(_spi, colorBuf, 2);\<close>
  with \<open>n\<close> the bound and \<open>i\<close> the counter, both 32-bit.
\<close>

function fillRect_loop :: "u8 list \<Rightarrow> u32 \<Rightarrow> u32 \<Rightarrow> machine \<Rightarrow> machine" where
  "fillRect_loop colorBuf n i m =
     (if i < n
      then fillRect_loop colorBuf n (i + 1) (spi_write_blocking (m_spi (self m)) colorBuf 2 m)
      else m)"
  by pat_completeness auto
termination
proof (relation "measure (\<lambda>(colorBuf, n, i, m). unat n - unat i)")
  show "wf (measure (\<lambda>(colorBuf, n, i, m). unat n - unat i))"
    by simp
next
  fix colorBuf :: "u8 list" and n i :: u32 and m :: machine
  assume lt: "i < n"
  then have "unat i < unat n"
    by (simp add: word_less_nat_alt)
  moreover have "unat n < 2 ^ 32"
    using unsigned_less [of n] by simp
  ultimately have "unat i < unat n" and "unat (i + 1) = Suc (unat i)"
    by (simp_all add: unat_word_ariths)
  then show "((colorBuf, n, i + 1, spi_write_blocking (m_spi (self m)) colorBuf 2 m),
                    (colorBuf, n, i, m))
                   \<in> measure (\<lambda>(colorBuf, n, i, m). unat n - unat i)"
    by simp
qed

declare fillRect_loop.simps [simp del]

definition fillRect :: "u16 \<Rightarrow> u16 \<Rightarrow> u16 \<Rightarrow> u16 \<Rightarrow> u16 \<Rightarrow> machine \<Rightarrow> machine" where
  "fillRect x y w h color m =
     (if uint x \<ge> SCREEN_WIDTH \<or> uint y \<ge> SCREEN_HEIGHT then m
      else
        let w = (if uint x + uint w > SCREEN_WIDTH
                 then word_of_int (SCREEN_WIDTH - uint x) else w) :: u16;
            h = (if uint y + uint h > SCREEN_HEIGHT
                 then word_of_int (SCREEN_HEIGHT - uint y) else h) :: u16;
            colorBuf = [word_of_int (drop_bit 8 (uint color)),
                        word_of_int (uint color AND 0xFF)] :: u8 list;
            m = setWindow x y (word_of_int (uint x + uint w - 1))
                              (word_of_int (uint y + uint h - 1)) m;
            m = gpio_put (m_dc (self m)) True m;
            m = gpio_put (m_cs (self m)) False m;
            m = fillRect_loop colorBuf (ucast w * ucast h) 0 m;
            m = gpio_put (m_cs (self m)) True m
        in m)"

definition fillScreen :: "u16 \<Rightarrow> machine \<Rightarrow> machine" where
  "fillScreen color m =
     fillRect 0 0 (word_of_int SCREEN_WIDTH) (word_of_int SCREEN_HEIGHT) color m"

definition drawPixel :: "u16 \<Rightarrow> u16 \<Rightarrow> u16 \<Rightarrow> machine \<Rightarrow> machine" where
  "drawPixel x y color m =
     (if uint x \<ge> SCREEN_WIDTH \<or> uint y \<ge> SCREEN_HEIGHT then m
      else
        let colorBuf = [word_of_int (drop_bit 8 (uint color)),
                        word_of_int (uint color AND 0xFF)] :: u8 list;
            m = setWindow x y x y m;
            m = writeDataBuf colorBuf 2 m
        in m)"

subsection \<open>The demo program's display (main.cpp, lines 33-62)\<close>

definition PIN_CS :: u8 where "PIN_CS = 17"
definition PIN_DC :: u8 where "PIN_DC = 16"
definition PIN_RST :: u8 where "PIN_RST = 20"
definition PIN_SCK :: u8 where "PIN_SCK = 18"
definition PIN_MOSI :: u8 where "PIN_MOSI = 19"

text \<open>\<open>spi0\<close> stands for the address the SDK gives the first SPI peripheral.\<close>

definition SPI_PORT :: spi_inst_ptr where "SPI_PORT = 0"

definition display :: ST7789 where
  "display = ST7789_ctor SPI_PORT PIN_CS PIN_DC PIN_RST PIN_SCK PIN_MOSI"

text \<open>The state right after \<open>ST7789 display(...)\<close>: no SDK call made yet.\<close>

definition boot :: machine where
  "boot = \<lparr>self = display, trace = []\<rparr>"

subsection \<open>Bus frames\<close>

text \<open>
  The four SDK calls that \<open>writeCommand\<close> and \<open>writeData\<close> make for one byte: the
  data/command pin (low for a command, high for data), chip-select low, the one-byte
  transfer, chip-select high. The theorems below describe traces in these units.
\<close>

definition command_frame :: "ST7789 \<Rightarrow> u8 \<Rightarrow> event list" where
  "command_frame d b =
     [GpioPut (m_dc d) False, GpioPut (m_cs d) False,
      SpiWriteBlocking (m_spi d) [b], GpioPut (m_cs d) True]"

definition data_frame :: "ST7789 \<Rightarrow> u8 \<Rightarrow> event list" where
  "data_frame d b =
     [GpioPut (m_dc d) True, GpioPut (m_cs d) False,
      SpiWriteBlocking (m_spi d) [b], GpioPut (m_cs d) True]"

section \<open>Traces of the transport layer\<close>

lemma sdk_call_simps [simp]:
  "self (sdk_call e m) = self m" "trace (sdk_call e m) = trace m @ [e]"
  by (simp_all add: sdk_call_def)

lemmas sdk_defs = gpio_put_def spi_write_blocking_def sleep_ms_def spi_init_def
  gpio_set_function_def gpio_init_def gpio_set_dir_def

lemmas boot_defs = boot_def display_def ST7789_ctor_def SPI_PORT_def
  PIN_CS_def PIN_DC_def PIN_RST_def PIN_SCK_def PIN_MOSI_def

lemma writeCommand_self [simp]: "self (writeCommand cmd m) = self m"
  by (simp add: writeCommand_def sdk_defs)

lemma writeCommand_trace:
  "trace (writeCommand cmd m) = trace m @ command_frame (self m) cmd"
  by (simp add: writeCommand_def command_frame_def sdk_defs)

lemma writeData_self [simp]: "self (writeData b m) = self m"
  by (simp add: writeData_def sdk_defs)

lemma writeData_trace:
  "trace (writeData b m) = trace m @ data_frame (self m) b"
  by (simp add: writeData_def data_frame_def sdk_defs)

lemma writeDataBuf_self [simp]: "self (writeDataBuf buf len m) = self m"
  by (simp add: writeDataBuf_def sdk_defs)

lemma writeDataBuf_trace:
  "trace (writeDataBuf buf len m) = trace m @
     [GpioPut (m_dc (self m)) True, GpioPut (m_cs (self m)) False,
      SpiWriteBlocking (m_spi (self m)) (take len buf), GpioPut (m_cs (self m)) True]"
  by (simp add: writeDataBuf_def sdk_defs)

section \<open>Bytes of a 16-bit value\<close>

text \<open>
  The code shifts and masks after promotion to \<open>int\<close> and then narrows to a byte. That
  is the same byte as shifting and masking the 16-bit value itself.
\<close>

lemma hi_byte: "(word_of_int (drop_bit 8 (uint (c::u16))) :: u8) = ucast (drop_bit 8 c)"
  by transfer (simp add: take_bit_drop_bit)

lemma lo_byte: "(word_of_int (uint (c::u16) AND 0xFF) :: u8) = ucast (c AND 0xFF)"
proof -
  have i: "(255::int) = mask 8" and w: "(255::u16) = mask 8"
    by (simp_all add: mask_eq_exp_minus_1)
  show ?thesis unfolding i w
    by (rule bit_word_eqI) (auto simp add: bit_simps)
qed

section \<open>Window addressing\<close>

lemma setWindow_self [simp]: "self (setWindow x0 y0 x1 y1 m) = self m"
  by (simp add: setWindow_def)

lemma setWindow_trace:
  "trace (setWindow x0 y0 x1 y1 m) = trace m @
     command_frame (self m) 0x2A @
     data_frame (self m) (ucast (drop_bit 8 x0)) @ data_frame (self m) (ucast (x0 AND 0xFF)) @
     data_frame (self m) (ucast (drop_bit 8 x1)) @ data_frame (self m) (ucast (x1 AND 0xFF)) @
     command_frame (self m) 0x2B @
     data_frame (self m) (ucast (drop_bit 8 y0)) @ data_frame (self m) (ucast (y0 AND 0xFF)) @
     data_frame (self m) (ucast (drop_bit 8 y1)) @ data_frame (self m) (ucast (y1 AND 0xFF)) @
     command_frame (self m) 0x2C"
  by (simp add: setWindow_def writeCommand_trace writeData_trace hi_byte lo_byte
      ST7789_CASET_def ST7789_RASET_def ST7789_RAMWR_def)

text \<open>
  C2: for every \<open>(x0, y0, x1, y1)\<close>, \<open>setWindow\<close> emits the column-address-set command
  \<open>0x2A\<close> followed by exactly the four data bytes \<open>x0 >> 8\<close>, \<open>x0 & 0xFF\<close>, \<open>x1 >> 8\<close>,
  \<open>x1 & 0xFF\<close>, then the row-address-set command \<open>0x2B\<close> followed by the same four
  bytes of \<open>y0\<close> and \<open>y1\<close>, then the memory-write command \<open>0x2C\<close> and nothing after it.
  In particular \<open>setWindow(10,20,50,60)\<close> sends the column data \<open>00 0A 00 32\<close> and the
  row data \<open>00 14 00 3C\<close>.
\<close>

theorem setWindow_emits:
  "trace (setWindow x0 y0 x1 y1 m) = trace m @
     command_frame (self m) 0x2A @
     data_frame (self m) (ucast (drop_bit 8 x0)) @ data_frame (self m) (ucast (x0 AND 0xFF)) @
     data_frame (self m) (ucast (drop_bit 8 x1)) @ data_frame (self m) (ucast (x1 AND 0xFF)) @
     command_frame (self m) 0x2B @
     data_frame (self m) (ucast (drop_bit 8 y0)) @ data_frame (self m) (ucast (y0 AND 0xFF)) @
     data_frame (self m) (ucast (drop_bit 8 y1)) @ data_frame (self m) (ucast (y1 AND 0xFF)) @
     command_frame (self m) 0x2C
   \<and>
   trace (setWindow 10 20 50 60 m) = trace m @
     command_frame (self m) 0x2A @
     data_frame (self m) 0x00 @ data_frame (self m) 0x0A @
     data_frame (self m) 0x00 @ data_frame (self m) 0x32 @
     command_frame (self m) 0x2B @
     data_frame (self m) 0x00 @ data_frame (self m) 0x14 @
     data_frame (self m) 0x00 @ data_frame (self m) 0x3C @
     command_frame (self m) 0x2C"
  by (simp add: setWindow_trace)

section \<open>Initialisation\<close>

lemma init_self [simp]: "self (init baudrate m) = self m"
  by (simp add: init_def sdk_defs)

lemma init_trace:
  "trace (init baudrate m) = trace m @
     [SpiInit (m_spi (self m)) baudrate,
      GpioSetFunction (m_sck (self m)) GPIO_FUNC_SPI,
      GpioSetFunction (m_mosi (self m)) GPIO_FUNC_SPI,
      GpioInit (m_cs (self m)), GpioInit (m_dc (self m)), GpioInit (m_rst (self m)),
      GpioSetDir (m_cs (self m)) GPIO_OUT, GpioSetDir (m_dc (self m)) GPIO_OUT,
      GpioSetDir (m_rst (self m)) GPIO_OUT,
      GpioPut (m_rst (self m)) True, SleepMs 100,
      GpioPut (m_rst (self m)) False, SleepMs 100,
      GpioPut (m_rst (self m)) True, SleepMs 100] @
     command_frame (self m) 0x01 @ [SleepMs 150] @
     command_frame (self m) 0x11 @ [SleepMs 120] @
     command_frame (self m) 0x3A @ data_frame (self m) 0x55 @
     command_frame (self m) 0x36 @ data_frame (self m) 0x00 @
     command_frame (self m) 0x20 @
     command_frame (self m) 0x29 @ [SleepMs 100]"
  by (simp add: init_def sdk_defs writeCommand_trace writeData_trace
      ST7789_SWRESET_def ST7789_SLPOUT_def ST7789_COLMOD_def ST7789_MADCTL_def
      ST7789_INVOFF_def ST7789_DISPON_def)

text \<open>
  C3: for every baudrate, \<open>init\<close> emits the controller commands in the fixed order
  software-reset \<open>0x01\<close>, sleep-exit \<open>0x11\<close>, color-mode \<open>0x3A\<close> with parameter
  \<open>0x55\<close>, memory-access-control \<open>0x36\<close> with parameter \<open>0x00\<close>, inversion-off
  \<open>0x20\<close>, display-on \<open>0x29\<close>. Stated on the pin writes and SPI transfers of the
  call, in order (the set-up calls and the delays left out): the reset pulse, then these
  frames and no others, whatever the baudrate. The baudrate reaches the first SDK call
  only: everything after it is the same for any two baudrates.
\<close>

theorem init_command_order:
  "filter (\<lambda>e. case e of GpioPut pin v \<Rightarrow> True | SpiWriteBlocking spi bs \<Rightarrow> True | _ \<Rightarrow> False)
     (drop (length (trace m)) (trace (init baudrate m))) =
     [GpioPut (m_rst (self m)) True, GpioPut (m_rst (self m)) False,
      GpioPut (m_rst (self m)) True] @
     command_frame (self m) 0x01 @
     command_frame (self m) 0x11 @
     command_frame (self m) 0x3A @ data_frame (self m) 0x55 @
     command_frame (self m) 0x36 @ data_frame (self m) 0x00 @
     command_frame (self m) 0x20 @
     command_frame (self m) 0x29
   \<and>
   drop (Suc (length (trace m))) (trace (init baudrate m)) =
   drop (Suc (length (trace m))) (trace (init baudrate' m))"
  by (simp add: init_trace command_frame_def data_frame_def)

text \<open>
  C8: \<open>init\<close> performs the hardware reset as reset high, a 100 ms delay, reset low, a
  100 ms delay, reset high, a 100 ms delay; then the software-reset command is followed
  by a 150 ms delay, the sleep-exit command by a 120 ms delay and the display-on command
  by a 100 ms delay, each delay at exactly that place in the sequence of SDK calls. The
  whole trace of \<open>init\<close>:
\<close>

theorem init_reset_and_delays:
  "trace (init baudrate m) = trace m @
     [SpiInit (m_spi (self m)) baudrate,
      GpioSetFunction (m_sck (self m)) GPIO_FUNC_SPI,
      GpioSetFunction (m_mosi (self m)) GPIO_FUNC_SPI,
      GpioInit (m_cs (self m)), GpioInit (m_dc (self m)), GpioInit (m_rst (self m)),
      GpioSetDir (m_cs (self m)) GPIO_OUT, GpioSetDir (m_dc (self m)) GPIO_OUT,
      GpioSetDir (m_rst (self m)) GPIO_OUT] @
     [GpioPut (m_rst (self m)) True, SleepMs 100,
      GpioPut (m_rst (self m)) False, SleepMs 100,
      GpioPut (m_rst (self m)) True, SleepMs 100] @
     command_frame (self m) ST7789_SWRESET @ [SleepMs 150] @
     command_frame (self m) ST7789_SLPOUT @ [SleepMs 120] @
     command_frame (self m) ST7789_COLMOD @ data_frame (self m) 0x55 @
     command_frame (self m) ST7789_MADCTL @ data_frame (self m) 0x00 @
     command_frame (self m) ST7789_INVOFF @
     command_frame (self m) ST7789_DISPON @ [SleepMs 100]"
  by (simp add: init_trace ST7789_SWRESET_def ST7789_SLPOUT_def ST7789_COLMOD_def
      ST7789_MADCTL_def ST7789_INVOFF_def ST7789_DISPON_def)

section \<open>Drawing\<close>

lemma fillRect_loop_self [simp]: "self (fillRect_loop colorBuf n i m) = self m"
proof (induction colorBuf n i m rule: fillRect_loop.induct)
  case (1 colorBuf n i m)
  show ?case
  proof (cases "i < n")
    case True
    with 1 show ?thesis
      by (subst fillRect_loop.simps) (simp add: sdk_defs)
  next
    case False
    then show ?thesis
      by (subst fillRect_loop.simps) simp
  qed
qed

lemma fillRect_loop_trace:
  "trace (fillRect_loop colorBuf n i m) = trace m @
     replicate (unat n - unat i) (SpiWriteBlocking (m_spi (self m)) (take 2 colorBuf))"
proof (induction colorBuf n i m rule: fillRect_loop.induct)
  case (1 colorBuf n i m)
  show ?case
  proof (cases "i < n")
    case True
    then have "unat i < unat n" by (simp add: word_less_nat_alt)
    moreover have "unat n < 2 ^ 32" using unsigned_less [of n] by simp
    ultimately have "unat n - unat i = Suc (unat n - unat (i + 1))"
      by (simp add: unat_word_ariths)
    with True 1 show ?thesis
      by (subst fillRect_loop.simps) (simp add: sdk_defs)
  next
    case False
    then have "unat n - unat i = 0" by (simp add: word_less_nat_alt)
    with False show ?thesis
      by (subst fillRect_loop.simps) simp
  qed
qed

lemma uint_clipped:
  fixes x w :: u16
  assumes "uint x < bound" "bound \<le> 320"
  shows "uint (if uint x + uint w > bound then word_of_int (bound - uint x) else w :: u16)
         = (if uint x + uint w > bound then bound - uint x else uint w)"
proof (cases "uint x + uint w > bound")
  case True
  have "0 \<le> bound - uint x"
    using assms by linarith
  moreover have "bound - uint x < 65536"
    using assms uint_ge_0 [of x] by linarith
  then have "bound - uint x < 2 ^ 16"
    by simp
  ultimately have "take_bit 16 (bound - uint x) = bound - uint x"
    by (rule take_bit_int_eq_self)
  then have "uint (word_of_int (bound - uint x) :: u16) = bound - uint x"
    by (subst uint_word_of_int_eq) simp
  with True show ?thesis
    by (simp only: if_True)
next
  case False
  then show ?thesis by (simp only: if_False)
qed

lemma loop_bound:
  fixes w h :: u16
  assumes "uint w \<le> 240" "uint h \<le> 320"
  shows "unat (ucast w * ucast h :: u32) = nat (uint w * uint h)"
proof -
  have "uint w * uint h \<le> 240 * 320"
    using assms by (intro mult_mono) simp_all
  then have lt: "uint w * uint h < 2 ^ 32" by simp
  have ge: "0 \<le> uint w * uint h" by simp
  have "uint (ucast w * ucast h :: u32) = take_bit 32 (uint w * uint h)"
    by (simp add: uint_word_ariths unsigned_ucast_eq take_bit_eq_mod mod_mult_eq)
  also have "\<dots> = uint w * uint h"
    using ge lt by (rule take_bit_int_eq_self)
  finally have "nat (uint (ucast w * ucast h :: u32)) = nat (uint w * uint h)"
    by (rule arg_cong)
  then show ?thesis by simp
qed

lemma fillRect_self [simp]: "self (fillRect x y w h color m) = self m"
  by (simp add: fillRect_def Let_def sdk_defs)

lemma fillRect_out_of_range:
  "uint x \<ge> 240 \<or> uint y \<ge> 320 \<Longrightarrow> fillRect x y w h color m = m"
  by (simp add: fillRect_def SCREEN_WIDTH_def SCREEN_HEIGHT_def)

lemma fillRect_trace:
  assumes x: "uint x < 240" and y: "uint y < 320"
    and wc: "wc = (if uint x + uint w > 240 then 240 - uint x else uint w)"
    and hc: "hc = (if uint y + uint h > 320 then 320 - uint y else uint h)"
  shows "trace (fillRect x y w h color m) =
           trace (setWindow x y (word_of_int (uint x + wc - 1))
                                (word_of_int (uint y + hc - 1)) m) @
           [GpioPut (m_dc (self m)) True, GpioPut (m_cs (self m)) False] @
           replicate (nat (wc * hc))
             (SpiWriteBlocking (m_spi (self m))
                [ucast (drop_bit 8 color), ucast (color AND 0xFF)]) @
           [GpioPut (m_cs (self m)) True]"
proof -
  define w' :: u16
    where "w' = (if uint x + uint w > 240 then word_of_int (240 - uint x) else w)"
  define h' :: u16
    where "h' = (if uint y + uint h > 320 then word_of_int (320 - uint y) else h)"
  define colorBuf :: "u8 list"
    where "colorBuf = [word_of_int (drop_bit 8 (uint color)), word_of_int (uint color AND 0xFF)]"
  define m1 where "m1 = setWindow x y (word_of_int (uint x + uint w' - 1))
                                      (word_of_int (uint y + uint h' - 1)) m"
  have w': "uint w' = wc"
    unfolding w'_def wc using x by (intro uint_clipped) simp_all
  have h': "uint h' = hc"
    unfolding h'_def hc using y by (intro uint_clipped) simp_all
  have "wc = 240 - uint x \<or> wc = uint w \<and> uint x + uint w \<le> 240"
    unfolding wc by simp
  then have "wc \<le> 240"
    using uint_ge_0 [of x] by linarith
  moreover have "hc = 320 - uint y \<or> hc = uint h \<and> uint y + uint h \<le> 320"
    unfolding hc by simp
  then have "hc \<le> 320"
    using uint_ge_0 [of y] by linarith
  ultimately have n: "unat (ucast w' * ucast h' :: u32) = nat (wc * hc)"
    unfolding w' [symmetric] h' [symmetric] by (rule loop_bound)
  have self_m1: "self m1 = self m"
    by (simp add: m1_def)
  have "fillRect x y w h color m =
          gpio_put (m_cs (self m)) True
            (fillRect_loop colorBuf (ucast w' * ucast h') 0
               (gpio_put (m_cs (self m)) False (gpio_put (m_dc (self m)) True m1)))"
    using x y
    unfolding fillRect_def Let_def SCREEN_WIDTH_def SCREEN_HEIGHT_def
      w'_def [symmetric] h'_def [symmetric] colorBuf_def [symmetric] m1_def [symmetric]
    by (simp add: sdk_defs self_m1)
  then have "trace (fillRect x y w h color m) =
          trace m1 @ [GpioPut (m_dc (self m)) True, GpioPut (m_cs (self m)) False] @
          replicate (unat (ucast w' * ucast h' :: u32))
            (SpiWriteBlocking (m_spi (self m)) (take 2 colorBuf)) @
          [GpioPut (m_cs (self m)) True]"
    by (simp add: sdk_defs fillRect_loop_trace self_m1)
  moreover have "take 2 colorBuf = [ucast (drop_bit 8 color), ucast (color AND 0xFF)]"
    unfolding colorBuf_def hi_byte lo_byte by simp
  ultimately show ?thesis
    unfolding n m1_def w' h' by simp
qed

lemma drawPixel_self [simp]: "self (drawPixel x y color m) = self m"
  by (simp add: drawPixel_def Let_def)

lemma drawPixel_out_of_range:
  "uint x \<ge> 240 \<or> uint y \<ge> 320 \<Longrightarrow> drawPixel x y color m = m"
  by (simp add: drawPixel_def SCREEN_WIDTH_def SCREEN_HEIGHT_def)

lemma drawPixel_trace:
  assumes "uint x < 240" "uint y < 320"
  shows "trace (drawPixel x y color m) = trace (setWindow x y x y m) @
           [GpioPut (m_dc (self m)) True, GpioPut (m_cs (self m)) False,
            SpiWriteBlocking (m_spi (self m)) [ucast (drop_bit 8 color), ucast (color AND 0xFF)],
            GpioPut (m_cs (self m)) True]"
  using assms
  by (simp add: drawPixel_def Let_def SCREEN_WIDTH_def SCREEN_HEIGHT_def writeDataBuf_trace
      hi_byte lo_byte)

lemma fillScreen_self [simp]: "self (fillScreen color m) = self m"
  by (simp add: fillScreen_def)

text \<open>
  C1: for every call \<open>fillRect(x, y, w, h, color)\<close> with \<open>x < 240\<close> and \<open>y < 320\<close>,
  the width becomes \<open>240 - x\<close> when \<open>x + w > 240\<close> and the height \<open>320 - y\<close> when
  \<open>y + h > 320\<close>, the sums taken in \<open>int\<close>, so without 16-bit wrap-around. The clipped
  rectangle lies on the screen (\<open>x + wc \<le> 240\<close>, \<open>y + hc \<le> 320\<close>), the window is set
  to it, and exactly \<open>wc * hc\<close> two-byte pixel transfers follow.
\<close>

theorem fillRect_clips:
  assumes "uint x < 240" and "uint y < 320"
  shows "let wc = (if uint x + uint w > 240 then 240 - uint x else uint w);
             hc = (if uint y + uint h > 320 then 320 - uint y else uint h)
         in 0 \<le> wc \<and> 0 \<le> hc \<and> uint x + wc \<le> 240 \<and> uint y + hc \<le> 320 \<and>
            trace (fillRect x y w h color m) =
              trace (setWindow x y (word_of_int (uint x + wc - 1))
                                   (word_of_int (uint y + hc - 1)) m) @
              [GpioPut (m_dc (self m)) True, GpioPut (m_cs (self m)) False] @
              replicate (nat (wc * hc))
                (SpiWriteBlocking (m_spi (self m))
                   [ucast (drop_bit 8 color), ucast (color AND 0xFF)]) @
              [GpioPut (m_cs (self m)) True]"
proof -
  define wc where "wc = (if uint x + uint w > 240 then 240 - uint x else uint w)"
  define hc where "hc = (if uint y + uint h > 320 then 320 - uint y else uint h)"
  have "0 \<le> wc" "uint x + wc \<le> 240"
    using assms(1) by (simp_all add: wc_def)
  moreover have "0 \<le> hc" "uint y + hc \<le> 320"
    using assms(2) by (simp_all add: hc_def)
  moreover note fillRect_trace [OF assms wc_def hc_def, of color m]
  ultimately show ?thesis
    unfolding Let_def wc_def [symmetric] hc_def [symmetric] by simp
qed

theorem fillRect_clips_witness:
  "uint (200::u16) < 240 \<and> uint (300::u16) < 320 \<and>
   trace (fillRect 200 300 100 100 0xF800 boot) =
     trace (setWindow 200 300 239 319 boot) @
     [GpioPut 16 True, GpioPut 17 False] @
     replicate 800 (SpiWriteBlocking 0 [0xF8, 0x00]) @
     [GpioPut 17 True]"
  using fillRect_clips [of 200 300 100 100 "0xF800" boot]
  by (simp add: boot_defs)

lemma byte_split:
  fixes c :: u16
  shows "uint c = 256 * uint (ucast (drop_bit 8 c) :: u8) + uint (ucast (c AND 0xFF) :: u8)"
proof -
  have c: "0 \<le> uint c" "uint c < 65536"
    using uint_lt2p [of c] by simp_all
  then have "uint c div 256 < 256" by linarith
  moreover have "0 \<le> uint c div 256" by (simp add: pos_imp_zdiv_nonneg_iff)
  ultimately have "uint c div 256 mod 256 = uint c div 256" by simp
  then have hi: "uint (ucast (drop_bit 8 c) :: u8) = uint c div 256"
    unfolding hi_byte [symmetric]
    by (simp add: uint_word_of_int drop_bit_eq_div)
  have m: "(255::int) = mask 8" by (simp add: mask_eq_exp_minus_1)
  have "uint c AND 255 = uint c mod 256"
    unfolding m by (simp add: take_bit_eq_mod flip: take_bit_eq_mask)
  then have lo: "uint (ucast (c AND 0xFF) :: u8) = uint c mod 256"
    unfolding lo_byte [symmetric]
    by (simp add: uint_word_of_int)
  show ?thesis unfolding hi lo by simp
qed

text \<open>
  C4: for every 16-bit color \<open>c\<close>, the two bytes that \<open>drawPixel\<close> and \<open>fillRect\<close>
  send per pixel are \<open>c >> 8\<close> then \<open>c & 0xFF\<close>: the high byte first, so that
  \<open>c = 256 * b0 + b1\<close>. The byte order comes from arithmetic on the value, not from the
  memory layout of the host. \<open>drawPixel\<close> sends the pair once; \<open>fillRect\<close> sends it
  once per pixel of the clipped rectangle, \<open>wc * hc\<close> times, and sends nothing else in
  its pixel stream. (\<open>0xF800\<close> gives \<open>F8 00\<close>, \<open>0x07E0\<close> gives \<open>07 E0\<close> and
  \<open>0xFFFF\<close> gives \<open>FF FF\<close>: see the instances after the theorem.)
\<close>

theorem color_bytes_big_endian:
  assumes "uint x < 240" and "uint y < 320"
  shows "let b0 = ucast (drop_bit 8 color) :: u8; b1 = ucast (color AND 0xFF) :: u8;
             wc = (if uint x + uint w > 240 then 240 - uint x else uint w);
             hc = (if uint y + uint h > 320 then 320 - uint y else uint h)
         in uint color = 256 * uint b0 + uint b1 \<and>
            trace (drawPixel x y color m) = trace (setWindow x y x y m) @
              [GpioPut (m_dc (self m)) True, GpioPut (m_cs (self m)) False,
               SpiWriteBlocking (m_spi (self m)) [b0, b1],
               GpioPut (m_cs (self m)) True] \<and>
            trace (fillRect x y w h color m) =
              trace (setWindow x y (word_of_int (uint x + wc - 1))
                                   (word_of_int (uint y + hc - 1)) m) @
              [GpioPut (m_dc (self m)) True, GpioPut (m_cs (self m)) False] @
              replicate (nat (wc * hc)) (SpiWriteBlocking (m_spi (self m)) [b0, b1]) @
              [GpioPut (m_cs (self m)) True]"
  using byte_split [of color] drawPixel_trace [OF assms, of color m]
    fillRect_trace [OF assms refl refl, of w h color m]
  unfolding Let_def by simp

theorem color_bytes_big_endian_witness:
  "uint (0::u16) < 240 \<and> uint (0::u16) < 320 \<and>
   uint (10::u16) < 240 \<and> uint (20::u16) < 320 \<and>
   trace (drawPixel 0 0 0xF800 boot) = trace (setWindow 0 0 0 0 boot) @
     [GpioPut 16 True, GpioPut 17 False, SpiWriteBlocking 0 [0xF8, 0x00], GpioPut 17 True] \<and>
   trace (drawPixel 0 0 0x07E0 boot) = trace (setWindow 0 0 0 0 boot) @
     [GpioPut 16 True, GpioPut 17 False, SpiWriteBlocking 0 [0x07, 0xE0], GpioPut 17 True] \<and>
   trace (drawPixel 0 0 0xFFFF boot) = trace (setWindow 0 0 0 0 boot) @
     [GpioPut 16 True, GpioPut 17 False, SpiWriteBlocking 0 [0xFF, 0xFF], GpioPut 17 True] \<and>
   trace (fillRect 0 0 1 1 0xF800 boot) = trace (setWindow 0 0 0 0 boot) @
     [GpioPut 16 True, GpioPut 17 False, SpiWriteBlocking 0 [0xF8, 0x00], GpioPut 17 True] \<and>
   trace (fillRect 10 20 2 3 0x07E0 boot) = trace (setWindow 10 20 11 22 boot) @
     [GpioPut 16 True, GpioPut 17 False] @
     replicate 6 (SpiWriteBlocking 0 [0x07, 0xE0]) @ [GpioPut 17 True] \<and>
   trace (fillRect 0 0 1 1 0xFFFF boot) = trace (setWindow 0 0 0 0 boot) @
     [GpioPut 16 True, GpioPut 17 False, SpiWriteBlocking 0 [0xFF, 0xFF], GpioPut 17 True]"
  using color_bytes_big_endian [where x = 0 and y = 0 and w = 1 and h = 1
      and color = "0xF800" and m = boot]
    color_bytes_big_endian [where x = 0 and y = 0 and w = 1 and h = 1
      and color = "0x07E0" and m = boot]
    color_bytes_big_endian [where x = 0 and y = 0 and w = 1 and h = 1
      and color = "0xFFFF" and m = boot]
    color_bytes_big_endian [where x = 10 and y = 20 and w = 2 and h = 3
      and color = "0x07E0" and m = boot]
  by (simp add: boot_defs)

text \<open>
  C5: for every \<open>(x, y)\<close> with \<open>x \<ge> 240\<close> or \<open>y \<ge> 320\<close> and every color,
  \<open>drawPixel\<close> makes no SDK call at all (no transfer, no chip-select or data/command
  pin write), and \<open>fillRect\<close> from such an origin returns likewise: the state, trace
  included, is the one before the call.
\<close>

theorem out_of_range_no_bus_activity:
  assumes "uint x \<ge> 240 \<or> uint y \<ge> 320"
  shows "drawPixel x y color m = m \<and> fillRect x y w h color m = m"
  using assms by (simp add: drawPixel_out_of_range fillRect_out_of_range)

theorem out_of_range_no_bus_activity_witness:
  "(uint (240::u16) \<ge> 240 \<or> uint (0::u16) \<ge> 320) \<and>
   drawPixel 240 0 0xF800 boot = boot \<and> fillRect 240 0 10 10 0xF800 boot = boot \<and>
   (uint (0::u16) \<ge> 240 \<or> uint (320::u16) \<ge> 320) \<and>
   drawPixel 0 320 0xF800 boot = boot \<and> fillRect 0 320 10 10 0xF800 boot = boot"
  using out_of_range_no_bus_activity [of 240 0 "0xF800" boot 10 10]
    out_of_range_no_bus_activity [of 0 320 "0xF800" boot 10 10]
  by simp

text \<open>
  C6: for every color \<open>c\<close>, \<open>fillScreen(c)\<close> does exactly what
  \<open>fillRect(0, 0, 240, 320, c)\<close> does, pin writes included: the window
  \<open>(0,0)-(239,319)\<close> and then 76800 pixel transfers in one chip-select window.
\<close>

theorem fillScreen_is_fillRect:
  "fillScreen color m = fillRect 0 0 240 320 color m \<and>
   trace (fillScreen color m) = trace m @
     command_frame (self m) 0x2A @
     data_frame (self m) 0x00 @ data_frame (self m) 0x00 @
     data_frame (self m) 0x00 @ data_frame (self m) 0xEF @
     command_frame (self m) 0x2B @
     data_frame (self m) 0x00 @ data_frame (self m) 0x00 @
     data_frame (self m) 0x01 @ data_frame (self m) 0x3F @
     command_frame (self m) 0x2C @
     [GpioPut (m_dc (self m)) True, GpioPut (m_cs (self m)) False] @
     replicate 76800 (SpiWriteBlocking (m_spi (self m))
        [ucast (drop_bit 8 color), ucast (color AND 0xFF)]) @
     [GpioPut (m_cs (self m)) True]"
proof -
  have eq: "fillScreen color m = fillRect 0 0 240 320 color m"
    by (simp add: fillScreen_def SCREEN_WIDTH_def SCREEN_HEIGHT_def)
  have "trace (fillRect 0 0 240 320 color m) =
          trace (setWindow 0 0 239 319 m) @
          [GpioPut (m_dc (self m)) True, GpioPut (m_cs (self m)) False] @
          replicate 76800 (SpiWriteBlocking (m_spi (self m))
             [ucast (drop_bit 8 color), ucast (color AND 0xFF)]) @
          [GpioPut (m_cs (self m)) True]"
    using fillRect_trace [of 0 0 240 240 320 320 color m] by simp
  then show ?thesis
    unfolding eq by (simp add: setWindow_trace)
qed

text \<open>
  C7: \<open>writeDataBuf\<close> and the pixel stream of \<open>fillRect\<close> each keep chip-select low
  for the whole transfer: one write of chip-select low before the first byte and one of
  chip-select high after the last. \<open>writeDataBuf\<close> sends its buffer in one transfer
  between them; \<open>fillRect\<close> sends \<open>wc * hc\<close> separate two-byte transfers (the
  clipped width and height) with no pin write in between.
\<close>

theorem chip_select_held:
  assumes "uint x < 240" and "uint y < 320"
  shows "trace (writeDataBuf buf len m) = trace m @
           [GpioPut (m_dc (self m)) True, GpioPut (m_cs (self m)) False,
            SpiWriteBlocking (m_spi (self m)) (take len buf),
            GpioPut (m_cs (self m)) True] \<and>
         (let wc = (if uint x + uint w > 240 then 240 - uint x else uint w);
              hc = (if uint y + uint h > 320 then 320 - uint y else uint h)
          in \<exists>x1 y1 b0 b1. trace (fillRect x y w h color m) =
               trace (setWindow x y x1 y1 m) @
               [GpioPut (m_dc (self m)) True, GpioPut (m_cs (self m)) False] @
               replicate (nat (wc * hc)) (SpiWriteBlocking (m_spi (self m)) [b0, b1]) @
               [GpioPut (m_cs (self m)) True])"
  using fillRect_trace [OF assms refl refl, of w h color m] writeDataBuf_trace [of buf len m]
  unfolding Let_def by blast

theorem chip_select_held_witness:
  "uint (0::u16) < 240 \<and> uint (0::u16) < 320 \<and>
   trace (writeDataBuf [1, 2, 3] 3 boot) =
     [GpioPut 16 True, GpioPut 17 False, SpiWriteBlocking 0 [1, 2, 3], GpioPut 17 True] \<and>
   (\<exists>x1 y1 b0 b1. trace (fillRect 0 0 2 3 0xF800 boot) =
      trace (setWindow 0 0 x1 y1 boot) @ [GpioPut 16 True, GpioPut 17 False] @
      replicate 6 (SpiWriteBlocking 0 [b0, b1]) @ [GpioPut 17 True])"
  using chip_select_held [of 0 0 "[1, 2, 3]" 3 boot 2 3 "0xF800"]
  by (simp add: boot_defs)

text \<open>
  C10: for every call \<open>fillRect(x, y, w, h, color)\<close> with \<open>x < 240\<close>, \<open>y < 320\<close> and
  \<open>w = 0\<close> or \<open>h = 0\<close>, the call is not a no-op on the bus: it sends the whole
  window-set sequence, with the end coordinates \<open>x + w - 1\<close> and \<open>y + h - 1\<close> reduced
  to 16 bits, then opens and closes the pixel stream without a single transfer. A zero
  width gives the end column \<open>x - 1\<close> in 16-bit arithmetic (65535 for \<open>x = 0\<close>), a zero
  height the end row \<open>y - 1\<close>.
\<close>

theorem fillRect_zero_size:
  assumes "uint x < 240" and "uint y < 320" and "w = 0 \<or> h = 0"
  shows "let wc = (if uint x + uint w > 240 then 240 - uint x else uint w);
             hc = (if uint y + uint h > 320 then 320 - uint y else uint h);
             x1 = word_of_int (uint x + wc - 1) :: u16;
             y1 = word_of_int (uint y + hc - 1) :: u16
         in trace (fillRect x y w h color m) = trace m @
              command_frame (self m) 0x2A @
              data_frame (self m) (ucast (drop_bit 8 x)) @
              data_frame (self m) (ucast (x AND 0xFF)) @
              data_frame (self m) (ucast (drop_bit 8 x1)) @
              data_frame (self m) (ucast (x1 AND 0xFF)) @
              command_frame (self m) 0x2B @
              data_frame (self m) (ucast (drop_bit 8 y)) @
              data_frame (self m) (ucast (y AND 0xFF)) @
              data_frame (self m) (ucast (drop_bit 8 y1)) @
              data_frame (self m) (ucast (y1 AND 0xFF)) @
              command_frame (self m) 0x2C @
              [GpioPut (m_dc (self m)) True, GpioPut (m_cs (self m)) False,
               GpioPut (m_cs (self m)) True] \<and>
            fillRect x y w h color m \<noteq> m \<and>
            (w = 0 \<longrightarrow> x1 = x - 1) \<and> (h = 0 \<longrightarrow> y1 = y - 1)"
proof -
  define wc where "wc = (if uint x + uint w > 240 then 240 - uint x else uint w)"
  define hc where "hc = (if uint y + uint h > 320 then 320 - uint y else uint h)"
  define x1 :: u16 where "x1 = word_of_int (uint x + wc - 1)"
  define y1 :: u16 where "y1 = word_of_int (uint y + hc - 1)"
  have "wc = 0 \<or> hc = 0"
    using assms by (auto simp add: wc_def hc_def)
  then have "nat (wc * hc) = 0"
    by auto
  with fillRect_trace [OF assms(1,2) wc_def hc_def, of color m]
  have t: "trace (fillRect x y w h color m) = trace (setWindow x y x1 y1 m) @
             [GpioPut (m_dc (self m)) True, GpioPut (m_cs (self m)) False,
              GpioPut (m_cs (self m)) True]"
    by (simp add: x1_def y1_def)
  then have "trace (fillRect x y w h color m) \<noteq> trace m"
    by (simp add: setWindow_trace)
  then have ne: "fillRect x y w h color m \<noteq> m"
    by auto
  have "w = 0 \<longrightarrow> x1 = x - 1"
    using assms(1) by (simp add: x1_def wc_def)
  moreover have "h = 0 \<longrightarrow> y1 = y - 1"
    using assms(2) by (simp add: y1_def hc_def)
  ultimately show ?thesis
    using t ne
    unfolding Let_def wc_def [symmetric] hc_def [symmetric] x1_def [symmetric] y1_def [symmetric]
    by (simp add: setWindow_trace)
qed

theorem fillRect_zero_size_witness:
  "uint (0::u16) < 240 \<and> uint (0::u16) < 320 \<and> ((0::u16) = 0 \<or> (0::u16) = 0) \<and>
   trace (fillRect 0 0 0 0 0xF800 boot) =
     command_frame (self boot) 0x2A @
     data_frame (self boot) 0x00 @ data_frame (self boot) 0x00 @
     data_frame (self boot) 0xFF @ data_frame (self boot) 0xFF @
     command_frame (self boot) 0x2B @
     data_frame (self boot) 0x00 @ data_frame (self boot) 0x00 @
     data_frame (self boot) 0xFF @ data_frame (self boot) 0xFF @
     command_frame (self boot) 0x2C @
     [GpioPut 16 True, GpioPut 17 False, GpioPut 17 True] \<and>
   fillRect 0 0 0 0 0xF800 boot \<noteq> boot \<and>
   (word_of_int (0 + 0 - 1) :: u16) = 65535"
  using fillRect_zero_size [of 0 0 0 0 "0xF800" boot]
  by (simp add: boot_defs mask_eq_exp_minus_1)

text \<open>
  C9: the constructor stores the peripheral reference and the five pin numbers
  (chip-select, data/command, reset, clock, data-out), and no operation writes any of
  these six fields: \<open>init\<close>, \<open>fillScreen\<close>, \<open>fillRect\<close>, \<open>drawPixel\<close>, \<open>setWindow\<close>
  and the three transport routines all return the driver object they were given.
\<close>

theorem configuration_immutable:
  "m_spi (ST7789_ctor spi cs dc rst sck mosi) = spi \<and>
   m_cs (ST7789_ctor spi cs dc rst sck mosi) = cs \<and>
   m_dc (ST7789_ctor spi cs dc rst sck mosi) = dc \<and>
   m_rst (ST7789_ctor spi cs dc rst sck mosi) = rst \<and>
   m_sck (ST7789_ctor spi cs dc rst sck mosi) = sck \<and>
   m_mosi (ST7789_ctor spi cs dc rst sck mosi) = mosi \<and>
   self (init baudrate m) = self m \<and>
   self (fillScreen color m) = self m \<and>
   self (fillRect x y w h color m) = self m \<and>
   self (drawPixel x y color m) = self m \<and>
   self (setWindow x0 y0 x1 y1 m) = self m \<and>
   self (writeCommand cmd m) = self m \<and>
   self (writeData b m) = self m \<and>
   self (writeDataBuf buf len m) = self m"
  by (simp add: ST7789_ctor_def)

end
